theory Spec2Isabelle
  imports Main "HOL-Library.Finite_Map" "HOL-Library.Char_ord" "HOL-Library.List_Lexorder"
begin

section \<open>Values and errors\<close>

text \<open>
  The module \<open>code_smell.py\<close> reads the messages of a pylint JSON report. A message is a
  JSON object; a value in it is \<open>null\<close>, an integer, a string, an array or an object. An
  object is a Python \<open>dict\<close>, which Python compares regardless of the order of its members:
  it is a finite map here. With that, Python's \<open>==\<close> on these values is HOL equality on
  \<open>pyval\<close>. Booleans and fractional numbers, which pylint writes in no field that the module
  reads, are left out: Python equates \<open>True\<close>, \<open>1\<close> and \<open>1.0\<close>, and in the lookups of this
  module they behave as the integers do (they can be hashed, and equal no string).
\<close>

datatype pyval =
    PyNone
  | PyInt int
  | PyStr string
  | PyList "pyval list"
  | PyDict "(string, pyval) fmap"

text \<open>
  The exceptions that the module can raise: \<open>KeyError\<close> (with the key that was not found)
  from a dictionary subscript, \<open>TypeError\<close> from a dictionary subscript with a key that
  cannot be hashed, \<open>ValueError\<close> from \<open>list.index\<close>, \<open>AttributeError\<close> from an attribute
  or method that a value does not have.
\<close>

datatype error = KeyError pyval | TypeError pyval | ValueError | AttributeError

text \<open>Lists and dicts cannot be hashed; \<open>None\<close>, integers and strings can.\<close>

fun hashable :: "pyval \<Rightarrow> bool" where
  "hashable (PyList xs) = False"
| "hashable (PyDict m) = False"
| "hashable v = True"

text \<open>A raw record is a Python \<open>dict\<close> with string keys.\<close>

type_synonym raw_record = "string \<rightharpoonup> pyval"

text \<open>\<open>data[key]\<close>: the value stored under the key, or \<open>KeyError\<close>.\<close>

definition getitem :: "raw_record \<Rightarrow> string \<Rightarrow> error + pyval" where
  "getitem data key = (case data key of None \<Rightarrow> Inl (KeyError (PyStr key)) | Some v \<Rightarrow> Inr v)"

text \<open>
  Statements in sequence: the value of the first is handed to the rest; an exception
  raised by the first leaves the function at once.
\<close>

definition and_then :: "error + 'a \<Rightarrow> ('a \<Rightarrow> error + 'b) \<Rightarrow> error + 'b" where
  "and_then r f = (case r of Inl e \<Rightarrow> Inl e | Inr v \<Rightarrow> f v)"

section \<open>Location\<close>

record Location =
  module :: pyval
  python_object :: pyval
  line :: pyval
  column :: pyval
  end_line :: pyval
  path :: pyval

text \<open>
  \<open>Location.__init__\<close>: six subscripts in the order of the source; the first missing key
  raises.
\<close>

definition Location_init :: "raw_record \<Rightarrow> error + Location" where
  "Location_init data =
     and_then (getitem data ''module'') (\<lambda>v_module.
     and_then (getitem data ''obj'') (\<lambda>v_obj.
     and_then (getitem data ''line'') (\<lambda>v_line.
     and_then (getitem data ''column'') (\<lambda>v_column.
     and_then (getitem data ''endLine'') (\<lambda>v_end_line.
     and_then (getitem data ''path'') (\<lambda>v_path.
     Inr \<lparr>module = v_module, python_object = v_obj, line = v_line,
          column = v_column, end_line = v_end_line, path = v_path\<rparr>))))))"

section \<open>Priority\<close>

datatype Priority = ERROR | WARNING | REFACTOR | CONVENTION

text \<open>Iterating over the enum class yields the members in the order of their definition.\<close>

definition Priority_members :: "Priority list" where
  "Priority_members = [ERROR, WARNING, REFACTOR, CONVENTION]"

fun name :: "Priority \<Rightarrow> string" where
  "name ERROR = ''ERROR''"
| "name WARNING = ''WARNING''"
| "name REFACTOR = ''REFACTOR''"
| "name CONVENTION = ''CONVENTION''"

fun glyph :: "Priority \<Rightarrow> string" where
  "glyph ERROR = '':red_circle:''"
| "glyph WARNING = '':orange_circle:''"
| "glyph REFACTOR = '':yellow_circle:''"
| "glyph CONVENTION = '':blue_circle:''"

text \<open>\<open>str.lower()\<close> on ASCII text: the 26 capital letters are mapped, all else is kept.\<close>

definition lower_char :: "char \<Rightarrow> char" where
  "lower_char c =
     (case map_of (zip ''ABCDEFGHIJKLMNOPQRSTUVWXYZ'' ''abcdefghijklmnopqrstuvwxyz'') c of
        None \<Rightarrow> c | Some d \<Rightarrow> d)"

definition lower :: "string \<Rightarrow> string" where
  "lower s = map lower_char s"

text \<open>
  The dict comprehension \<open>{prio.name.lower(): prio for prio in Priority}\<close>: one store per
  member, in iteration order. Its keys are Python strings.
\<close>

definition priority_table :: "pyval \<rightharpoonup> Priority" where
  "priority_table =
     fold (\<lambda>prio table. table(PyStr (lower (name prio)) \<mapsto> prio)) Priority_members Map.empty"

text \<open>
  \<open>get_priority\<close>: the subscript of that dict with \<open>name\<close>. A subscript hashes its key
  first, which raises \<open>TypeError\<close> for a list or a dict; a key that can be hashed and is
  not in the dict raises \<open>KeyError\<close>.
\<close>

definition get_priority :: "pyval \<Rightarrow> error + Priority" where
  "get_priority nm =
     (if hashable nm
      then (case priority_table nm of None \<Rightarrow> Inl (KeyError nm) | Some prio \<Rightarrow> Inr prio)
      else Inl (TypeError nm))"

section \<open>CodeSmell\<close>

text \<open>
  The attribute \<open>type\<close> of a smell. The constructor stores a member of \<open>Priority\<close> in it;
  as any attribute of a Python object it can hold another value, which \<open>severity\<close> calls
  an unknown type.
\<close>

datatype type_value = Member Priority | Other pyval

record CodeSmell =
  type :: type_value
  location :: Location
  symbol :: pyval
  message :: pyval
  message_id :: pyval

text \<open>
  \<open>CodeSmell.__init__\<close>: the type is read and resolved first, then the location is built,
  then the three remaining fields are read. Any failure leaves the constructor at once.
\<close>

definition CodeSmell_init :: "raw_record \<Rightarrow> error + CodeSmell" where
  "CodeSmell_init data =
     and_then (getitem data ''type'') (\<lambda>v_type.
     and_then (get_priority v_type) (\<lambda>prio.
     and_then (Location_init data) (\<lambda>loc.
     and_then (getitem data ''symbol'') (\<lambda>v_symbol.
     and_then (getitem data ''message'') (\<lambda>v_message.
     and_then (getitem data ''message-id'') (\<lambda>v_message_id.
     Inr \<lparr>type = Member prio, location = loc, symbol = v_symbol,
          message = v_message, message_id = v_message_id\<rparr>))))))"

text \<open>
  \<open>list.index(x)\<close>: the position of the first element equal to \<open>x\<close>; \<open>ValueError\<close> when
  no element is equal to it.
\<close>

fun index :: "'a list \<Rightarrow> 'a \<Rightarrow> error + nat" where
  "index [] x = Inl ValueError"
| "index (y # ys) x = (if y = x then Inr 0 else and_then (index ys x) (\<lambda>i. Inr (Suc i)))"

text \<open>The list \<open>types\<close> of \<open>severity\<close>.\<close>

definition severity_types :: "type_value list" where
  "severity_types = [Member CONVENTION, Member REFACTOR, Member WARNING, Member ERROR]"

text \<open>\<open>severity\<close>: \<open>types.index(self.type) if self.type in types else -1\<close>.\<close>

definition severity :: "CodeSmell \<Rightarrow> error + int" where
  "severity self =
     (if type self \<in> set severity_types
      then and_then (index severity_types (type self)) (\<lambda>i. Inr (int i))
      else Inr (- 1))"

text \<open>
  \<open>self.type.name.lower()\<close>: a member of the enum has a name; \<open>None\<close>, an integer, a
  string, a list and a dict have no attribute \<open>name\<close>.
\<close>

fun type_name_lower :: "type_value \<Rightarrow> error + string" where
  "type_name_lower (Member prio) = Inr (lower (name prio))"
| "type_name_lower (Other v) = Inl AttributeError"

text \<open>
  \<open>str.replace(old, new)\<close>: the occurrences of \<open>old\<close> are found from the left and do not
  overlap. An empty \<open>old\<close> matches before every character and at the end.
\<close>

function str_replace :: "string \<Rightarrow> string \<Rightarrow> string \<Rightarrow> string" where
  "str_replace old new [] = (if old = [] then new else [])"
| "str_replace old new (c # cs) =
     (if old = [] then new @ c # str_replace old new cs
      else if take (length old) (c # cs) = old
           then new @ str_replace old new (drop (length old - 1) cs)
      else c # str_replace old new cs)"
  by pat_completeness auto
termination
  by (relation "measure (\<lambda>(old, new, s). length s)") auto

text \<open>
  \<open>get_readable_symbol\<close>: \<open>self.symbol.replace('-', ' ')\<close>. Only a string has the method.
  The method assigns nothing, so the model is a function of the object and returns the
  result alone.
\<close>

definition get_readable_symbol :: "CodeSmell \<Rightarrow> error + string" where
  "get_readable_symbol self =
     (case symbol self of PyStr s \<Rightarrow> Inr (str_replace ''-'' '' '' s) | _ \<Rightarrow> Inl AttributeError)"

section \<open>JSON encoding\<close>

text \<open>
  A JSON document, as \<open>json.loads\<close> gives it back from the text that \<open>json.dumps\<close> writes.
  The members of an object that the encoder writes from a dictionary display of the
  source are kept in the order in which they were written.
\<close>

datatype json =
    JNull
  | JInt int
  | JStr string
  | JArr "json list"
  | JObj "(string \<times> json) list"

text \<open>
  The document of a field value. A dict value has no order of members in this model;
  its members are listed by key. \<open>json.loads\<close> gives a dict back for it, which is equal
  to the value whatever the order.
\<close>

primrec json_of :: "pyval \<Rightarrow> json" where
  "json_of PyNone = JNull"
| "json_of (PyInt i) = JInt i"
| "json_of (PyStr s) = JStr s"
| "json_of (PyList xs) = JArr (map json_of xs)"
| "json_of (PyDict m) = JObj (sorted_list_of_fmap (fmmap json_of m))"

text \<open>
  The Python values that the encoder can meet while it serializes a code smell: field
  values, enum members, the objects of the two classes, and dictionaries.
\<close>

datatype pyobj =
    Val pyval
  | Enum Priority
  | Loc Location
  | Smell CodeSmell
  | Dict "(string \<times> pyobj) list"

fun obj_of_type :: "type_value \<Rightarrow> pyobj" where
  "obj_of_type (Member prio) = Enum prio"
| "obj_of_type (Other v) = Val v"

text \<open>
  \<open>o.__dict__\<close>: the attributes of an object in the order in which \<open>__init__\<close> assigned
  them. The result is \<open>None\<close> where this development has no attribute dictionary to give:
  the encoder hands no field value to the hook, and the \<open>__dict__\<close> of an enum member holds
  internals of the \<open>enum\<close> module.
\<close>

fun vars :: "pyobj \<Rightarrow> (string \<times> pyobj) list option" where
  "vars (Loc l) =
     Some [(''module'', Val (module l)), (''python_object'', Val (python_object l)),
           (''line'', Val (line l)), (''column'', Val (column l)),
           (''end_line'', Val (end_line l)), (''path'', Val (path l))]"
| "vars (Smell c) =
     Some [(''type'', obj_of_type (type c)), (''location'', Loc (location c)),
           (''symbol'', Val (symbol c)), (''message'', Val (message c)),
           (''message_id'', Val (message_id c))]"
| "vars _ = None"

text \<open>
  A store into a dictionary: an existing key keeps its position and takes the new value,
  a new key goes to the end. The display \<open>{**d, k1: v1, k2: v2}\<close> is \<open>d\<close> followed by two
  such stores.
\<close>

fun setitem :: "(string \<times> 'v) list \<Rightarrow> string \<Rightarrow> 'v \<Rightarrow> (string \<times> 'v) list" where
  "setitem [] k v = [(k, v)]"
| "setitem ((k', v') # d) k v = (if k' = k then (k, v) # d else (k', v') # setitem d k v)"

text \<open>
  The \<open>default\<close> hook of \<open>jsonify\<close>:
  \<open>lambda o: {**o.__dict__, 'severity': self.severity(), 'type': self.type.name.lower()}\<close>.
  The two overrides are computed from \<open>self\<close>, the smell being serialized, for every object
  \<open>o\<close> that the encoder hands to the hook; an exception in either leaves the hook.
\<close>

definition default :: "CodeSmell \<Rightarrow> pyobj \<Rightarrow> (error + (string \<times> pyobj) list) option" where
  "default self obj =
     (case vars obj of
        None \<Rightarrow> None
      | Some d \<Rightarrow>
          Some (and_then (severity self) (\<lambda>sev.
                and_then (type_name_lower (type self)) (\<lambda>nm.
                Inr (setitem (setitem d ''severity'' (Val (PyInt sev)))
                             ''type'' (Val (PyStr nm)))))))"

text \<open>A bound on the nesting that the hook can produce below a value.\<close>

fun weight :: "pyobj \<Rightarrow> nat" where
  "weight (Val v) = 0"
| "weight (Enum p) = 0"
| "weight (Loc l) = 2"
| "weight (Smell c) = 4"
| "weight (Dict kvs) = Suc (sum_list (map (\<lambda>kv. weight (snd kv)) kvs))"

text \<open>
  The members of an object, encoded one after the other: the first that has no document
  decides.
\<close>

fun members :: "(string \<times> (error + json) option) list \<Rightarrow> (error + json) option" where
  "members [] = Some (Inr (JObj []))"
| "members ((k, None) # rest) = None"
| "members ((k, Some (Inl e)) # rest) = Some (Inl e)"
| "members ((k, Some (Inr j)) # rest) =
     (case members rest of
        Some (Inr (JObj js)) \<Rightarrow> Some (Inr (JObj ((k, j) # js)))
      | r \<Rightarrow> r)"

text \<open>
  The encoder of \<open>json.dumps(..., default=...)\<close>: a field value is written as it is; a
  dictionary becomes an object, each value encoded in turn; any other value is handed to
  the hook and the hook's result is encoded in its place. The result is \<open>None\<close> where the
  hook has none, and the exception where the hook raises.
\<close>

function encode :: "CodeSmell \<Rightarrow> pyobj \<Rightarrow> (error + json) option" where
  "encode self (Val v) = Some (Inr (json_of v))"
| "encode self (Dict kvs) = members (map (\<lambda>kv. (fst kv, encode self (snd kv))) kvs)"
| "encode self (Enum p) =
     (case default self (Enum p) of
        None \<Rightarrow> None | Some (Inl e) \<Rightarrow> Some (Inl e) | Some (Inr d) \<Rightarrow> encode self (Dict d))"
| "encode self (Loc l) =
     (case default self (Loc l) of
        None \<Rightarrow> None | Some (Inl e) \<Rightarrow> Some (Inl e) | Some (Inr d) \<Rightarrow> encode self (Dict d))"
| "encode self (Smell c) =
     (case default self (Smell c) of
        None \<Rightarrow> None | Some (Inl e) \<Rightarrow> Some (Inl e) | Some (Inr d) \<Rightarrow> encode self (Dict d))"
  by pat_completeness auto
termination
proof -
  have store: "sum_list (map (\<lambda>kv. weight (snd kv)) (setitem d k v))
                 \<le> sum_list (map (\<lambda>kv. weight (snd kv)) d) + weight v"
    for d :: "(string \<times> pyobj) list" and k v
    by (induction d k v rule: setitem.induct) auto
  have hook: "weight (Dict d) < weight obj" if "default self obj = Some (Inr d)" for self obj d
  proof -
    from that obtain d0 sev nm where d0: "vars obj = Some d0"
      and d: "d = setitem (setitem d0 ''severity'' (Val (PyInt sev))) ''type'' (Val (PyStr nm))"
      by (auto simp: default_def and_then_def split: option.splits sum.splits)
    have "sum_list (map (\<lambda>kv. weight (snd kv)) d) \<le> sum_list (map (\<lambda>kv. weight (snd kv)) d0)"
      unfolding d
      using store [of "setitem d0 ''severity'' (Val (PyInt sev))" "''type''" "Val (PyStr nm)"]
        store [of d0 "''severity''" "Val (PyInt sev)"]
      by simp
    moreover have flat: "weight (obj_of_type t) = 0" for t
      by (cases t) simp_all
    have "Suc (sum_list (map (\<lambda>kv. weight (snd kv)) d0)) < weight obj"
      using d0 by (cases obj) (auto simp: flat)
    ultimately show ?thesis by simp
  qed
  have entry: "weight (snd kv) < weight (Dict kvs)" if "kv \<in> set kvs" for kv kvs
    using that by (induction kvs) auto
  show ?thesis
  proof (relation "measure (\<lambda>(self, obj). weight obj)")
    show "wf (measure (\<lambda>(self, obj). weight obj))" by simp
  next
    fix self :: CodeSmell and kvs :: "(string \<times> pyobj) list" and kv
    assume "kv \<in> set kvs"
    then show "((self, snd kv), (self, Dict kvs)) \<in> measure (\<lambda>(self, obj). weight obj)"
      using entry [of kv kvs] by simp
  next
    fix self :: CodeSmell and p x d
    assume "default self (Enum p) = Some x" "x = Inr d"
    then show "((self, Dict d), (self, Enum p)) \<in> measure (\<lambda>(self, obj). weight obj)"
      using hook [of self "Enum p" d] by simp
  next
    fix self :: CodeSmell and l x d
    assume "default self (Loc l) = Some x" "x = Inr d"
    then show "((self, Dict d), (self, Loc l)) \<in> measure (\<lambda>(self, obj). weight obj)"
      using hook [of self "Loc l" d] by simp
  next
    fix self :: CodeSmell and c x d
    assume "default self (Smell c) = Some x" "x = Inr d"
    then show "((self, Dict d), (self, Smell c)) \<in> measure (\<lambda>(self, obj). weight obj)"
      using hook [of self "Smell c" d] by simp
  qed
qed

text \<open>
  \<open>jsonify\<close>: \<open>json.dumps(self, default=...)\<close>. The Python method returns the text of the
  document; the model gives the document itself.
\<close>

definition jsonify :: "CodeSmell \<Rightarrow> (error + json) option" where
  "jsonify self = encode self (Smell self)"

text \<open>The member of a JSON value under a key; \<open>None\<close> when the value is no object.\<close>

fun member :: "json \<Rightarrow> string \<Rightarrow> json option" where
  "member (JObj kvs) k = map_of kvs k"
| "member _ k = None"

text \<open>The keys of a JSON object, in order.\<close>

fun keys :: "json \<Rightarrow> string list" where
  "keys (JObj kvs) = map fst kvs"
| "keys _ = []"

fun is_object :: "json \<Rightarrow> bool" where
  "is_object (JObj kvs) = True"
| "is_object _ = False"

section \<open>Report\<close>

record 'g Report =
  code_smells :: "CodeSmell list"
  grade :: 'g

text \<open>
  \<open>sorted\<close> calls the key function once for each element, in order, before it sorts; an
  exception in a call leaves \<open>sorted\<close>.
\<close>

fun key_list :: "('a \<Rightarrow> error + 'k) \<Rightarrow> 'a list \<Rightarrow> error + ('k \<times> 'a) list" where
  "key_list key [] = Inr []"
| "key_list key (x # xs) =
     and_then (key x) (\<lambda>k. and_then (key_list key xs) (\<lambda>kxs. Inr ((k, x) # kxs)))"

text \<open>
  \<open>sorted(xs, key=..., reverse=...)\<close>: a stable sort by ascending key; with
  \<open>reverse=True\<close> the list is reversed, sorted the same way, and reversed again, which
  keeps elements of equal key in their input order.
\<close>

definition sorted_py :: "('a \<Rightarrow> error + 'k::linorder) \<Rightarrow> bool \<Rightarrow> 'a list \<Rightarrow> error + 'a list" where
  "sorted_py key reverse xs =
     and_then (key_list key xs) (\<lambda>kxs.
     Inr (map snd (if reverse then rev (sort_key fst (rev kxs)) else sort_key fst kxs)))"

text \<open>
  The loop of \<open>convert_dict\<close>: \<open>ret\<close> grows by one smell per record; a record that cannot
  be converted raises out of the loop.
\<close>

fun convert_loop :: "raw_record list \<Rightarrow> CodeSmell list \<Rightarrow> error + CodeSmell list" where
  "convert_loop [] ret = Inr ret"
| "convert_loop (smell # rest) ret =
     and_then (CodeSmell_init smell) (\<lambda>c. convert_loop rest (ret @ [c]))"

definition convert_dict :: "raw_record list \<Rightarrow> error + CodeSmell list" where
  "convert_dict json_content =
     and_then (convert_loop json_content []) (\<lambda>ret. sorted_py severity True ret)"

text \<open>
  \<open>Report.__init__\<close>: \<open>code_smells\<close> is assigned from \<open>convert_dict\<close>, then the grade. An
  exception inside \<open>convert_dict\<close> leaves the constructor before either assignment, and
  the caller gets no object.
\<close>

definition Report_init :: "raw_record list \<Rightarrow> 'g \<Rightarrow> error + 'g Report" where
  "Report_init json_content g =
     and_then (convert_dict json_content) (\<lambda>smells. Inr \<lparr>code_smells = smells, grade = g\<rparr>)"

text \<open>
  \<open>itertools.groupby(xs, key)\<close>: a new group starts at every element whose key differs
  from the key of the running group; each group is paired with that key.
\<close>

function groupby :: "'a list \<Rightarrow> ('a \<Rightarrow> 'k) \<Rightarrow> ('k \<times> 'a list) list" where
  "groupby [] key = []"
| "groupby (x # xs) key =
     (key x, x # takeWhile (\<lambda>y. key y = key x) xs)
       # groupby (dropWhile (\<lambda>y. key y = key x) xs) key"
  by pat_completeness auto
termination
  by (relation "measure (\<lambda>(xs, key). length xs)")
     (auto simp: length_dropWhile_le le_imp_less_Suc)

definition key_func :: "CodeSmell \<Rightarrow> pyval" where
  "key_func k = path (location k)"

definition group_by_file :: "'g Report \<Rightarrow> CodeSmell list list" where
  "group_by_file self = map snd (groupby (code_smells self) key_func)"

section \<open>Auxiliary definitions for the statements\<close>

text \<open>
  The keys that the two constructors subscript: \<open>type\<close>, \<open>symbol\<close>, \<open>message\<close> and
  \<open>message-id\<close> in \<open>CodeSmell.__init__\<close>, the other six in \<open>Location.__init__\<close>.
\<close>

definition required_keys :: "string list" where
  "required_keys = [''type'', ''symbol'', ''message'', ''message-id'', ''module'', ''obj'',
                    ''line'', ''column'', ''endLine'', ''path'']"

text \<open>The attributes that \<open>Location.__init__\<close> assigns.\<close>

definition location_fields :: "string list" where
  "location_fields = [''module'', ''python_object'', ''line'', ''column'', ''end_line'', ''path'']"

text \<open>A pylint message, and the smell that the constructor builds from it.\<close>

definition example_record :: raw_record where
  "example_record =
     [''type'' \<mapsto> PyStr ''refactor'', ''symbol'' \<mapsto> PyStr ''no-self-use'',
      ''message'' \<mapsto> PyStr ''Method could be a function'', ''message-id'' \<mapsto> PyStr ''R0201'',
      ''module'' \<mapsto> PyStr ''app'', ''obj'' \<mapsto> PyStr ''A.f'', ''line'' \<mapsto> PyInt 3,
      ''column'' \<mapsto> PyInt 4, ''endLine'' \<mapsto> PyInt 3, ''path'' \<mapsto> PyStr ''app.py'']"

definition example_smell :: CodeSmell where
  "example_smell =
     \<lparr>type = Member REFACTOR,
      location = \<lparr>module = PyStr ''app'', python_object = PyStr ''A.f'', line = PyInt 3,
                  column = PyInt 4, end_line = PyInt 3, path = PyStr ''app.py''\<rparr>,
      symbol = PyStr ''no-self-use'', message = PyStr ''Method could be a function'',
      message_id = PyStr ''R0201''\<rparr>"

text \<open>An error in another file, and a second refactoring hint in the first file.\<close>

definition error_record :: raw_record where
  "error_record = example_record(''type'' \<mapsto> PyStr ''error'', ''path'' \<mapsto> PyStr ''lib.py'')"

definition error_smell :: CodeSmell where
  "error_smell =
     example_smell\<lparr>type := Member ERROR,
                   location := (location example_smell)\<lparr>path := PyStr ''lib.py''\<rparr>\<rparr>"

definition branches_record :: raw_record where
  "branches_record = example_record(''symbol'' \<mapsto> PyStr ''too-many-branches'')"

definition branches_smell :: CodeSmell where
  "branches_smell = example_smell\<lparr>symbol := PyStr ''too-many-branches''\<rparr>"

text \<open>
  A warning in the first file, and a refactoring hint in the other file: the first
  shares its path, the second its type, with the example smell.
\<close>

definition warning_smell :: CodeSmell where
  "warning_smell = example_smell\<lparr>type := Member WARNING\<rparr>"

definition other_file_smell :: CodeSmell where
  "other_file_smell =
     example_smell\<lparr>location := (location example_smell)\<lparr>path := PyStr ''lib.py''\<rparr>\<rparr>"

text \<open>
  The first message without its \<open>path\<close>, with a capitalised type, and with a JSON array
  and a JSON object as its type.
\<close>

definition no_path_record :: raw_record where
  "no_path_record = example_record(''path'' := None)"

definition capital_record :: raw_record where
  "capital_record = example_record(''type'' \<mapsto> PyStr ''Error'')"

definition list_type_record :: raw_record where
  "list_type_record = example_record(''type'' \<mapsto> PyList [PyStr ''error''])"

definition dict_type_record :: raw_record where
  "dict_type_record = example_record(''type'' \<mapsto> PyDict fmempty)"

text \<open>The example smell after \<open>smell.type = 'fatal'\<close>: a type that is no member.\<close>

definition unknown_type_smell :: CodeSmell where
  "unknown_type_smell = example_smell\<lparr>type := Other (PyStr ''fatal'')\<rparr>"

section \<open>Construction\<close>

lemma lower_names:
  "lower ''ERROR'' = ''error''" "lower ''WARNING'' = ''warning''"
  "lower ''REFACTOR'' = ''refactor''" "lower ''CONVENTION'' = ''convention''"
  by (simp_all add: lower_def lower_char_def)

lemma priority_table_eq:
  "priority_table =
     [PyStr ''error'' \<mapsto> ERROR, PyStr ''warning'' \<mapsto> WARNING,
      PyStr ''refactor'' \<mapsto> REFACTOR, PyStr ''convention'' \<mapsto> CONVENTION]"
  by (simp add: priority_table_def Priority_members_def lower_names)

lemma get_priority_eq:
  "get_priority nm =
     (if nm = PyStr ''convention'' then Inr CONVENTION
      else if nm = PyStr ''refactor'' then Inr REFACTOR
      else if nm = PyStr ''warning'' then Inr WARNING
      else if nm = PyStr ''error'' then Inr ERROR
      else if hashable nm then Inl (KeyError nm)
      else Inl (TypeError nm))"
  by (auto simp: get_priority_def priority_table_eq)

lemma get_priority_Inr_ex:
  "(\<exists>p. get_priority v = Inr p) =
     (\<exists>s \<in> {''error'', ''warning'', ''refactor'', ''convention''}. v = PyStr s)"
  by (auto simp: get_priority_eq)

lemma get_priority_Inl:
  "get_priority v = Inl e \<Longrightarrow> e = (if hashable v then KeyError v else TypeError v)"
  by (simp add: get_priority_def split: option.splits if_splits)

lemma getitem_Inr: "(getitem data k = Inr v) = (data k = Some v)"
  by (simp add: getitem_def split: option.splits)

lemma getitem_Inl: "(getitem data k = Inl e) = (data k = None \<and> e = KeyError (PyStr k))"
  by (auto simp: getitem_def split: option.splits)

lemma and_then_Inr: "(and_then r f = Inr y) = (\<exists>v. r = Inr v \<and> f v = Inr y)"
  by (cases r) (simp_all add: and_then_def)

lemma and_then_Inl: "(and_then r f = Inl e) = (r = Inl e \<or> (\<exists>v. r = Inr v \<and> f v = Inl e))"
  by (cases r) (simp_all add: and_then_def)

lemma Location_init_Inl: "Location_init data = Inl e \<Longrightarrow> \<exists>k. e = KeyError k"
  by (auto simp: Location_init_def and_then_Inl getitem_Inl)

lemma Location_init_total:
  "(\<exists>l. Location_init data = Inr l) =
   ({''module'', ''obj'', ''line'', ''column'', ''endLine'', ''path''} \<subseteq> dom data)"
  by (auto simp: Location_init_def and_then_Inr getitem_Inr)

lemma CodeSmell_init_Inl:
  "CodeSmell_init data = Inl e \<Longrightarrow>
   (\<exists>k. e = KeyError k) \<or> (\<exists>v. data ''type'' = Some v \<and> \<not> hashable v \<and> e = TypeError v)"
  by (auto simp: CodeSmell_init_def and_then_Inl getitem_Inl getitem_Inr
      dest!: get_priority_Inl Location_init_Inl split: if_splits)

lemma CodeSmell_init_unhashable:
  "data ''type'' = Some v \<Longrightarrow> \<not> hashable v \<Longrightarrow> CodeSmell_init data = Inl (TypeError v)"
  by (simp add: CodeSmell_init_def and_then_def getitem_def get_priority_def)

lemma CodeSmell_init_ok:
  "(\<exists>c. CodeSmell_init data = Inr c) =
     ((\<exists>s \<in> {''error'', ''warning'', ''refactor'', ''convention''}. data ''type'' = Some (PyStr s))
      \<and> set required_keys \<subseteq> dom data)"
proof -
  have "(\<exists>c. CodeSmell_init data = Inr c) =
        ((\<exists>v. data ''type'' = Some v \<and> (\<exists>p. get_priority v = Inr p)) \<and>
         (\<exists>l. Location_init data = Inr l) \<and>
         {''symbol'', ''message'', ''message-id''} \<subseteq> dom data)"
    by (auto simp: CodeSmell_init_def and_then_Inr getitem_Inr)
  also have "\<dots> =
      ((\<exists>s \<in> {''error'', ''warning'', ''refactor'', ''convention''}. data ''type'' = Some (PyStr s))
       \<and> set required_keys \<subseteq> dom data)"
    unfolding get_priority_Inr_ex Location_init_total
    by (auto simp: required_keys_def)
  finally show ?thesis .
qed

lemma CodeSmell_init_type:
  "CodeSmell_init data = Inr c \<Longrightarrow>
   \<exists>v prio. data ''type'' = Some v \<and> get_priority v = Inr prio \<and> type c = Member prio"
  by (auto simp: CodeSmell_init_def and_then_Inr getitem_Inr)

lemmas init_defs =
  CodeSmell_init_def Location_init_def and_then_def getitem_def get_priority_eq

lemma example_record_init: "CodeSmell_init example_record = Inr example_smell"
  by (simp add: init_defs example_record_def example_smell_def)

lemma error_record_init: "CodeSmell_init error_record = Inr error_smell"
  by (simp add: init_defs error_record_def error_smell_def example_record_def example_smell_def)

lemma branches_record_init: "CodeSmell_init branches_record = Inr branches_smell"
  by (simp add: init_defs branches_record_def branches_smell_def example_record_def
      example_smell_def)

lemma no_path_record_init: "CodeSmell_init no_path_record = Inl (KeyError (PyStr ''path''))"
  by (simp add: init_defs no_path_record_def example_record_def)

lemma capital_record_init: "CodeSmell_init capital_record = Inl (KeyError (PyStr ''Error''))"
  by (simp add: init_defs capital_record_def example_record_def)

lemma list_type_record_init:
  "CodeSmell_init list_type_record = Inl (TypeError (PyList [PyStr ''error'']))"
  by (simp add: init_defs list_type_record_def example_record_def)

lemma dict_type_record_init:
  "CodeSmell_init dict_type_record = Inl (TypeError (PyDict fmempty))"
  by (simp add: init_defs dict_type_record_def example_record_def)

text \<open>
  C5, as it is stated, fails: a record that has all ten keys and a JSON array as its
  \<open>type\<close> is not converted, and the exception is a \<open>TypeError\<close>, which is no lookup error.
\<close>

theorem CodeSmell_init_list_type_counterexample:
  "set required_keys \<subseteq> dom list_type_record \<and>
   (\<nexists>c. CodeSmell_init list_type_record = Inr c) \<and>
   (\<nexists>k. CodeSmell_init list_type_record = Inl (KeyError k))"
  by (simp add: list_type_record_init)
     (simp add: list_type_record_def example_record_def required_keys_def)

text \<open>
  C5, amended. Construction of a \<open>CodeSmell\<close> from a raw record succeeds exactly when the
  value under \<open>type\<close> is one of the strings \<open>error\<close>, \<open>warning\<close>, \<open>refactor\<close>, \<open>convention\<close>
  (compared as they are, so \<open>Error\<close> is not accepted) and each of the ten required keys is
  present. When it fails, it raises \<open>TypeError\<close> if the value under \<open>type\<close> is a JSON array
  or object, which cannot be hashed, and \<open>KeyError\<close> in every other case.
\<close>

theorem CodeSmell_init_succeeds_iff:
  "((\<exists>c. CodeSmell_init data = Inr c) \<longleftrightarrow>
      (\<exists>s \<in> {''error'', ''warning'', ''refactor'', ''convention''}. data ''type'' = Some (PyStr s)) \<and>
      (\<forall>k \<in> set required_keys. k \<in> dom data)) \<and>
   ((\<nexists>c. CodeSmell_init data = Inr c) \<longrightarrow>
      (if \<exists>v. data ''type'' = Some v \<and> \<not> hashable v
       then CodeSmell_init data = Inl (TypeError (the (data ''type'')))
       else \<exists>k. CodeSmell_init data = Inl (KeyError k)))"
proof (intro conjI impI)
  show "(\<exists>c. CodeSmell_init data = Inr c) \<longleftrightarrow>
      (\<exists>s \<in> {''error'', ''warning'', ''refactor'', ''convention''}. data ''type'' = Some (PyStr s)) \<and>
      (\<forall>k \<in> set required_keys. k \<in> dom data)"
    unfolding CodeSmell_init_ok by blast
next
  assume "\<nexists>c. CodeSmell_init data = Inr c"
  then obtain e where e: "CodeSmell_init data = Inl e"
    by (cases "CodeSmell_init data") auto
  show "if \<exists>v. data ''type'' = Some v \<and> \<not> hashable v
       then CodeSmell_init data = Inl (TypeError (the (data ''type'')))
       else \<exists>k. CodeSmell_init data = Inl (KeyError k)"
  proof (cases "\<exists>v. data ''type'' = Some v \<and> \<not> hashable v")
    case True
    then obtain v where "data ''type'' = Some v" "\<not> hashable v" by blast
    then show ?thesis using CodeSmell_init_unhashable [of data v] by auto
  next
    case False
    with CodeSmell_init_Inl [OF e] e show ?thesis by auto
  qed
qed

theorem CodeSmell_init_succeeds_iff_witness:
  "(\<exists>c. CodeSmell_init example_record = Inr c) \<and>
   (\<exists>k. CodeSmell_init capital_record = Inl (KeyError k)) \<and>
   (\<exists>k. CodeSmell_init no_path_record = Inl (KeyError k)) \<and>
   CodeSmell_init list_type_record = Inl (TypeError (PyList [PyStr ''error''])) \<and>
   CodeSmell_init dict_type_record = Inl (TypeError (PyDict fmempty))"
  using CodeSmell_init_succeeds_iff [of example_record]
    CodeSmell_init_succeeds_iff [of capital_record]
    CodeSmell_init_succeeds_iff [of no_path_record]
    CodeSmell_init_succeeds_iff [of list_type_record]
    CodeSmell_init_succeeds_iff [of dict_type_record]
  by (simp add: example_record_init capital_record_init no_path_record_init
      list_type_record_init dict_type_record_init)

section \<open>Severity\<close>

lemma known_types: "(t \<in> set severity_types) = (\<exists>prio. t = Member prio)"
proof
  assume "t \<in> set severity_types"
  then show "\<exists>prio. t = Member prio" by (auto simp: severity_types_def)
next
  assume "\<exists>prio. t = Member prio"
  then obtain prio where "t = Member prio" ..
  then show "t \<in> set severity_types" by (cases prio) (simp_all add: severity_types_def)
qed

lemma severity_Member:
  "type c = Member prio \<Longrightarrow>
   severity c = Inr (case prio of CONVENTION \<Rightarrow> 0 | REFACTOR \<Rightarrow> 1 | WARNING \<Rightarrow> 2 | ERROR \<Rightarrow> 3)"
  by (cases prio) (simp_all add: severity_def severity_types_def and_then_def)

lemma severity_Other: "type c = Other v \<Longrightarrow> severity c = Inr (- 1)"
  by (simp add: severity_def severity_types_def)

lemma index_absent: "x \<notin> set xs \<Longrightarrow> index xs x = Inl ValueError"
  by (induction xs) (auto simp: and_then_def)

lemma example_severities:
  "severity example_smell = Inr 1" "severity error_smell = Inr 3"
  "severity branches_smell = Inr 1" "severity unknown_type_smell = Inr (- 1)"
  by (simp_all add: severity_Member severity_Other example_smell_def error_smell_def
      branches_smell_def unknown_type_smell_def)

text \<open>
  C4. \<open>severity()\<close> is 0 for a smell of type \<open>CONVENTION\<close>, 1 for \<open>REFACTOR\<close>, 2 for
  \<open>WARNING\<close> and 3 for \<open>ERROR\<close>; along the order CONVENTION, REFACTOR, WARNING, ERROR the
  severity strictly increases.
\<close>

theorem severity_by_type:
  "(type c = Member CONVENTION \<longrightarrow> severity c = Inr 0) \<and>
   (type c = Member REFACTOR \<longrightarrow> severity c = Inr 1) \<and>
   (type c = Member WARNING \<longrightarrow> severity c = Inr 2) \<and>
   (type c = Member ERROR \<longrightarrow> severity c = Inr 3) \<and>
   (\<exists>s0 s1 s2 s3.
      severity (c\<lparr>type := Member CONVENTION\<rparr>) = Inr s0 \<and>
      severity (c\<lparr>type := Member REFACTOR\<rparr>) = Inr s1 \<and>
      severity (c\<lparr>type := Member WARNING\<rparr>) = Inr s2 \<and>
      severity (c\<lparr>type := Member ERROR\<rparr>) = Inr s3 \<and>
      s0 < s1 \<and> s1 < s2 \<and> s2 < s3)"
  by (simp add: severity_Member)

theorem severity_by_type_witness:
  "severity (example_smell\<lparr>type := Member CONVENTION\<rparr>) = Inr 0 \<and>
   severity (example_smell\<lparr>type := Member REFACTOR\<rparr>) = Inr 1 \<and>
   severity (example_smell\<lparr>type := Member WARNING\<rparr>) = Inr 2 \<and>
   severity (example_smell\<lparr>type := Member ERROR\<rparr>) = Inr 3"
  using severity_by_type [of "example_smell\<lparr>type := Member CONVENTION\<rparr>"]
    severity_by_type [of "example_smell\<lparr>type := Member REFACTOR\<rparr>"]
    severity_by_type [of "example_smell\<lparr>type := Member WARNING\<rparr>"]
    severity_by_type [of "example_smell\<lparr>type := Member ERROR\<rparr>"]
  by simp

text \<open>
  C9. \<open>severity()\<close> returns an integer for every smell, whatever its \<open>type\<close> holds. For a
  type that is not in the list of known types the result is -1, where \<open>list.index\<close>
  alone would raise \<open>ValueError\<close>; the result is -1 for no other smell. A smell that
  the constructor built has its type from the lookup by name, which is a member of the
  enum and in the list: its severity is between 0 and 3, and not -1.
\<close>

theorem severity_total_sentinel:
  "(\<exists>n. severity c = Inr n) \<and>
   (type c \<notin> set severity_types \<longrightarrow>
      severity c = Inr (- 1) \<and> index severity_types (type c) = Inl ValueError) \<and>
   (severity c = Inr (- 1) \<longrightarrow> type c \<notin> set severity_types) \<and>
   (CodeSmell_init data = Inr c \<longrightarrow>
      (\<exists>v prio. data ''type'' = Some v \<and> get_priority v = Inr prio \<and> type c = Member prio) \<and>
      type c \<in> set severity_types \<and>
      (\<exists>n. severity c = Inr n \<and> 0 \<le> n \<and> n \<le> 3) \<and>
      severity c \<noteq> Inr (- 1))"
proof -
  have member: "(\<exists>n. severity c = Inr n \<and> 0 \<le> n \<and> n \<le> 3) \<and> severity c \<noteq> Inr (- 1)"
    if "type c = Member prio" for prio
    using severity_Member [OF that] by (cases prio) simp_all
  have total: "\<exists>n. severity c = Inr n"
  proof (cases "type c")
    case (Member prio)
    with member show ?thesis by blast
  next
    case (Other v)
    then show ?thesis by (simp add: severity_Other)
  qed
  have sentinel: "severity c = Inr (- 1) \<and> index severity_types (type c) = Inl ValueError"
    if "type c \<notin> set severity_types"
    using that by (simp add: severity_def index_absent)
  have only: "type c \<notin> set severity_types" if "severity c = Inr (- 1)"
  proof
    assume "type c \<in> set severity_types"
    then obtain prio where "type c = Member prio" unfolding known_types ..
    with member that show False by blast
  qed
  have built: "(\<exists>v prio. data ''type'' = Some v \<and> get_priority v = Inr prio \<and> type c = Member prio) \<and>
      type c \<in> set severity_types \<and>
      (\<exists>n. severity c = Inr n \<and> 0 \<le> n \<and> n \<le> 3) \<and> severity c \<noteq> Inr (- 1)"
    if init: "CodeSmell_init data = Inr c"
  proof -
    from CodeSmell_init_type [OF init] obtain v prio
      where vp: "data ''type'' = Some v" "get_priority v = Inr prio" "type c = Member prio"
      by blast
    from vp(3) have "type c \<in> set severity_types" unfolding known_types by blast
    with vp member [OF vp(3)] show ?thesis by blast
  qed
  from total sentinel only built show ?thesis by blast
qed

theorem severity_total_sentinel_witness:
  "type unknown_type_smell \<notin> set severity_types \<and>
   severity unknown_type_smell = Inr (- 1) \<and>
   index severity_types (type unknown_type_smell) = Inl ValueError \<and>
   CodeSmell_init example_record = Inr example_smell \<and>
   type example_smell = Member REFACTOR \<and>
   severity example_smell = Inr 1"
  using severity_total_sentinel [of unknown_type_smell example_record]
    severity_total_sentinel [of example_smell example_record]
  by (simp add: example_record_init example_severities known_types)
     (simp add: unknown_type_smell_def example_smell_def)

section \<open>Readable symbols\<close>

lemma str_replace_char: "str_replace [a] [b] s = map (\<lambda>ch. if ch = a then b else ch) s"
  by (induction s) auto

text \<open>
  C8. For a smell whose symbol is a string, \<open>get_readable_symbol()\<close> returns that string
  with every hyphen replaced by a space, and a string without a hyphen as it is. The
  method is a function of the smell and returns the new string only: the stored symbol
  is not changed.
\<close>

theorem get_readable_symbol_replaces:
  "symbol c = PyStr s \<Longrightarrow>
     get_readable_symbol c = Inr (map (\<lambda>ch. if ch = CHR ''-'' then CHR '' '' else ch) s) \<and>
     (CHR ''-'' \<notin> set s \<longrightarrow> get_readable_symbol c = Inr s)"
proof -
  assume sym: "symbol c = PyStr s"
  have keep: "CHR ''-'' \<notin> set s \<Longrightarrow> map (\<lambda>ch. if ch = CHR ''-'' then CHR '' '' else ch) s = s"
    by (induction s) auto
  from sym
  have "get_readable_symbol c = Inr (map (\<lambda>ch. if ch = CHR ''-'' then CHR '' '' else ch) s)"
    by (simp add: get_readable_symbol_def str_replace_char)
  with keep show ?thesis by simp
qed

theorem get_readable_symbol_replaces_witness:
  "symbol example_smell = PyStr ''no-self-use'' \<and>
   get_readable_symbol example_smell = Inr ''no self use'' \<and>
   symbol (example_smell\<lparr>symbol := PyStr ''W0612''\<rparr>) = PyStr ''W0612'' \<and>
   get_readable_symbol (example_smell\<lparr>symbol := PyStr ''W0612''\<rparr>) = Inr ''W0612''"
  using get_readable_symbol_replaces [of example_smell "''no-self-use''"]
    get_readable_symbol_replaces [of "example_smell\<lparr>symbol := PyStr ''W0612''\<rparr>" "''W0612''"]
  by (simp add: example_smell_def)

section \<open>The JSON document of a smell\<close>

lemma default_Member:
  "type self = Member prio \<Longrightarrow> severity self = Inr n \<Longrightarrow> vars obj = Some d \<Longrightarrow>
   default self obj =
     Some (Inr (setitem (setitem d ''severity'' (Val (PyInt n)))
                        ''type'' (Val (PyStr (lower (name prio))))))"
  by (simp add: default_def and_then_def)

lemma encode_Loc:
  "type self = Member prio \<Longrightarrow> severity self = Inr n \<Longrightarrow>
   encode self (Loc l) =
     Some (Inr (JObj [(''module'', json_of (module l)),
                      (''python_object'', json_of (python_object l)),
                      (''line'', json_of (line l)), (''column'', json_of (column l)),
                      (''end_line'', json_of (end_line l)), (''path'', json_of (path l)),
                      (''severity'', JInt n),
                      (''type'', JStr (lower (name prio)))]))"
  by (simp add: default_Member)

lemma jsonify_document:
  "type c = Member prio \<Longrightarrow> severity c = Inr n \<Longrightarrow>
   jsonify c =
     Some (Inr (JObj [(''type'', JStr (lower (name prio))),
                 (''location'',
                    JObj [(''module'', json_of (module (location c))),
                          (''python_object'', json_of (python_object (location c))),
                          (''line'', json_of (line (location c))),
                          (''column'', json_of (column (location c))),
                          (''end_line'', json_of (end_line (location c))),
                          (''path'', json_of (path (location c))),
                          (''severity'', JInt n),
                          (''type'', JStr (lower (name prio)))]),
                 (''symbol'', json_of (symbol c)),
                 (''message'', json_of (message c)),
                 (''message_id'', json_of (message_id c)),
                 (''severity'', JInt n)]))"
  by (simp add: jsonify_def default_Member encode_Loc)

lemma jsonify_unknown_type: "type c = Other v \<Longrightarrow> jsonify c = Some (Inl AttributeError)"
  by (simp add: jsonify_def default_def and_then_def severity_Other)

text \<open>
  C1. The claim is that the \<open>location\<close> member of the document has the six fields of the
  \<open>Location\<close> as its keys and no other. The encoder hands the nested \<open>Location\<close> to the
  same \<open>default\<close> hook as the smell, and the hook adds \<open>severity\<close> and \<open>type\<close> to whatever
  it is given: for the example smell the \<open>location\<close> object is a nested object, not a
  string, with the six fields followed by the smell's \<open>severity\<close> and \<open>type\<close>.
\<close>

theorem jsonify_location_keys_example:
  "CodeSmell_init example_record = Inr example_smell \<and>
   (\<exists>doc loc. jsonify example_smell = Some (Inr doc) \<and> member doc ''location'' = Some loc \<and>
      is_object loc \<and>
      keys loc = location_fields @ [''severity'', ''type''] \<and>
      ''severity'' \<notin> set location_fields \<and> ''type'' \<notin> set location_fields \<and>
      member loc ''severity'' = Some (JInt 1) \<and>
      member loc ''type'' = Some (JStr ''refactor''))"
proof -
  have "type example_smell = Member REFACTOR" by (simp add: example_smell_def)
  from jsonify_document [OF this example_severities(1)] show ?thesis
    by (simp add: example_record_init location_fields_def lower_names)
qed

text \<open>
  C2. For a smell built from a record, the document of \<open>jsonify()\<close> is an object with
  distinct keys whose \<open>severity\<close> member is the integer that \<open>severity()\<close> returns, whose
  \<open>type\<close> member is the lowercase name of the smell's type, and whose \<open>location\<close> member is
  an object.
\<close>

theorem jsonify_top_level:
  "CodeSmell_init data = Inr c \<Longrightarrow>
   \<exists>doc loc n prio. jsonify c = Some (Inr doc) \<and> is_object doc \<and> distinct (keys doc) \<and>
     severity c = Inr n \<and> member doc ''severity'' = Some (JInt n) \<and>
     type c = Member prio \<and> member doc ''type'' = Some (JStr (lower (name prio))) \<and>
     member doc ''location'' = Some loc \<and> is_object loc"
proof -
  assume "CodeSmell_init data = Inr c"
  from CodeSmell_init_type [OF this] obtain prio where t: "type c = Member prio" by blast
  from severity_Member [OF t] obtain n where n: "severity c = Inr n" by blast
  from jsonify_document [OF t n] t n show ?thesis by simp
qed

theorem jsonify_top_level_witness:
  "CodeSmell_init example_record = Inr example_smell \<and>
   severity example_smell = Inr 1 \<and> type example_smell = Member REFACTOR \<and>
   (\<exists>doc loc. jsonify example_smell = Some (Inr doc) \<and> is_object doc \<and> distinct (keys doc) \<and>
     member doc ''severity'' = Some (JInt 1) \<and>
     member doc ''type'' = Some (JStr ''refactor'') \<and>
     member doc ''location'' = Some loc \<and> is_object loc)"
proof -
  have t: "type example_smell = Member REFACTOR" by (simp add: example_smell_def)
  from jsonify_top_level [OF example_record_init]
  obtain doc loc n prio where d: "jsonify example_smell = Some (Inr doc)" "is_object doc"
    "distinct (keys doc)" "severity example_smell = Inr n" "member doc ''severity'' = Some (JInt n)"
    "type example_smell = Member prio" "member doc ''type'' = Some (JStr (lower (name prio)))"
    "member doc ''location'' = Some loc" "is_object loc"
    by blast
  from d(4) have "n = 1" by (simp add: example_severities)
  moreover from d(6) t have "prio = REFACTOR" by simp
  ultimately show ?thesis
    using d t by (auto simp: example_record_init example_severities lower_names)
qed

section \<open>Building a report\<close>

lemma convert_loop_all:
  "list_all2 (\<lambda>d c. CodeSmell_init d = Inr c) records smells \<Longrightarrow>
   convert_loop records ret = Inr (ret @ smells)"
  by (induction records smells arbitrary: ret rule: list_all2_induct)
     (simp_all add: and_then_def)

lemma convert_loop_fails:
  "d \<in> set records \<Longrightarrow> CodeSmell_init d = Inl e \<Longrightarrow>
   \<exists>d' e'. d' \<in> set records \<and> CodeSmell_init d' = Inl e' \<and> convert_loop records ret = Inl e'"
proof (induction records arbitrary: ret)
  case Nil
  then show ?case by simp
next
  case (Cons r records)
  show ?case
  proof (cases "CodeSmell_init r")
    case (Inl e0)
    then show ?thesis by (auto simp: and_then_def)
  next
    case (Inr c)
    with Cons.prems have "d \<in> set records" by auto
    from Cons.IH [OF this Cons.prems(2), of "ret @ [c]"] Inr show ?thesis
      by (auto simp: and_then_def)
  qed
qed

lemma severity_Inr: "severity c = Inr (projr (severity c))"
proof (cases "type c")
  case (Member prio)
  from severity_Member [OF this] show ?thesis by simp
next
  case (Other v)
  from severity_Other [OF this] show ?thesis by simp
qed

lemma severity_eq_Inr: "(severity c = Inr k) = (projr (severity c) = k)"
proof
  assume "severity c = Inr k"
  then show "projr (severity c) = k" by simp
next
  assume "projr (severity c) = k"
  with severity_Inr [of c] show "severity c = Inr k" by simp
qed

lemma key_list_severity:
  "key_list severity xs = Inr (map (\<lambda>x. (projr (severity x), x)) xs)"
proof (induction xs)
  case Nil
  show ?case by simp
next
  case (Cons x xs)
  have "key_list severity (x # xs) =
      and_then (Inr (projr (severity x)))
        (\<lambda>k. and_then (key_list severity xs) (\<lambda>kxs. Inr ((k, x) # kxs)))"
    using severity_Inr [of x] by simp
  then show ?case unfolding Cons.IH by (simp add: and_then_def)
qed

lemma insort_key_fst_map:
  "insort_key fst (f x, x) (map (\<lambda>y. (f y, y)) ys) = map (\<lambda>y. (f y, y)) (insort_key f x ys)"
  by (induction ys) simp_all

lemma sort_key_fst_map:
  "sort_key fst (map (\<lambda>y. (f y, y)) ys) = map (\<lambda>y. (f y, y)) (sort_key f ys)"
  by (induction ys) (simp_all add: insort_key_fst_map)

lemma sorted_py_severity:
  "sorted_py severity True xs = Inr (rev (sort_key (\<lambda>x. projr (severity x)) (rev xs)))"
proof -
  have "rev (map (\<lambda>x. (projr (severity x), x)) xs)
      = map (\<lambda>x. (projr (severity x), x)) (rev xs)"
    by (rule rev_map)
  then have "sort_key fst (rev (map (\<lambda>x. (projr (severity x), x)) xs))
      = map (\<lambda>x. (projr (severity x), x)) (sort_key (\<lambda>x. projr (severity x)) (rev xs))"
    using sort_key_fst_map [of "\<lambda>x. projr (severity x)" "rev xs"] by simp
  then have "map snd (rev (sort_key fst (rev (map (\<lambda>x. (projr (severity x), x)) xs))))
      = rev (sort_key (\<lambda>x. projr (severity x)) (rev xs))"
    by (simp add: rev_map comp_def)
  then show ?thesis
    unfolding sorted_py_def key_list_severity by (simp add: and_then_def)
qed

lemma sorted_reverse_sorted:
  "sorted_wrt (\<lambda>a b. key a \<ge> key b) (rev (sort_key key (rev xs)))"
proof -
  have "sorted (map key (sort_key key (rev xs)))" by simp
  then have "sorted_wrt (\<lambda>a b. key a \<le> key b) (sort_key key (rev xs))"
    by (simp add: sorted_map)
  then show ?thesis
    by (simp add: sorted_wrt_rev)
qed

lemma sorted_reverse_stable:
  "filter (\<lambda>x. key x = k) (rev (sort_key key (rev xs))) = filter (\<lambda>x. key x = k) xs"
proof -
  have "filter (\<lambda>x. key x = k) (sort_key key (rev xs)) = filter (\<lambda>x. key x = k) (rev xs)"
    by (rule sort_key_stable)
  then show ?thesis
    by (simp add: rev_filter [symmetric])
qed

lemma severity_order:
  "(\<exists>m n. severity a = Inr m \<and> severity b = Inr n \<and> n \<le> m)
     = (projr (severity b) \<le> projr (severity a))"
  using severity_Inr [of a] severity_Inr [of b] by (metis sum.sel(2))

lemma example_records_init:
  "list_all2 (\<lambda>d c. CodeSmell_init d = Inr c)
     [example_record, error_record, branches_record] [example_smell, error_smell, branches_smell]"
  by (simp add: example_record_init error_record_init branches_record_init)

lemma example_report:
  "Report_init [example_record, error_record, branches_record] g =
     Inr \<lparr>code_smells = [error_smell, example_smell, branches_smell], grade = g\<rparr>"
  by (simp add: Report_init_def convert_dict_def and_then_def sorted_py_def
      example_record_init error_record_init branches_record_init example_severities)

text \<open>
  C3. When every record of the input can be converted, \<open>Report(records, grade)\<close> is built,
  it holds the grade, and its \<open>code_smells\<close> are the converted smells sorted by
  non-increasing severity; the sort is stable: for each severity, the smells of that
  severity stand in the report in the order of their records.
\<close>

theorem Report_init_sorted_stable:
  "list_all2 (\<lambda>d c. CodeSmell_init d = Inr c) records smells \<Longrightarrow>
   \<exists>r. Report_init records g = Inr r \<and> grade r = g \<and>
       length (code_smells r) = length smells \<and>
       sorted_wrt (\<lambda>a b. \<exists>m n. severity a = Inr m \<and> severity b = Inr n \<and> n \<le> m)
         (code_smells r) \<and>
       (\<forall>k. filter (\<lambda>s. severity s = Inr k) (code_smells r)
              = filter (\<lambda>s. severity s = Inr k) smells)"
proof -
  assume "list_all2 (\<lambda>d c. CodeSmell_init d = Inr c) records smells"
  then have "convert_loop records [] = Inr smells"
    using convert_loop_all [of records smells "[]"] by simp
  then have "Report_init records g =
      Inr \<lparr>code_smells = rev (sort_key (\<lambda>x. projr (severity x)) (rev smells)), grade = g\<rparr>"
    by (simp add: Report_init_def convert_dict_def and_then_def sorted_py_severity)
  then show ?thesis
    unfolding severity_order severity_eq_Inr
    by (simp add: sorted_reverse_sorted sorted_reverse_stable)
qed

theorem Report_init_sorted_stable_witness:
  "list_all2 (\<lambda>d c. CodeSmell_init d = Inr c)
     [example_record, error_record, branches_record] [example_smell, error_smell, branches_smell] \<and>
   (\<exists>r. Report_init [example_record, error_record, branches_record] (8::int) = Inr r \<and>
        grade r = 8 \<and> code_smells r = [error_smell, example_smell, branches_smell] \<and>
        map severity (code_smells r) = [Inr 3, Inr 1, Inr 1])"
proof -
  from Report_init_sorted_stable [OF example_records_init, of "8::int"]
  obtain r where r: "Report_init [example_record, error_record, branches_record] (8::int) = Inr r"
    and g: "grade r = 8"
    by blast
  from r have "code_smells r = [error_smell, example_smell, branches_smell]"
    by (auto simp: example_report)
  with r g show ?thesis
    using example_records_init by (simp add: example_severities)
qed

text \<open>
  C7. When the conversion of one record of the input fails, the construction of the
  report fails with the exception of a failing record, and there is no report: neither a
  sequence of smells nor a grade.
\<close>

theorem Report_init_all_or_nothing:
  "d \<in> set records \<Longrightarrow> CodeSmell_init d = Inl e \<Longrightarrow>
   (\<exists>d' e'. d' \<in> set records \<and> CodeSmell_init d' = Inl e' \<and> Report_init records g = Inl e') \<and>
   (\<nexists>r. Report_init records g = Inr r)"
proof -
  assume "d \<in> set records" and "CodeSmell_init d = Inl e"
  from convert_loop_fails [OF this, of "[]"]
  obtain d' e' where "d' \<in> set records" "CodeSmell_init d' = Inl e'"
    "convert_loop records [] = Inl e'" by blast
  then show ?thesis
    by (auto simp: Report_init_def convert_dict_def and_then_def)
qed

theorem Report_init_all_or_nothing_witness:
  "no_path_record \<in> set [example_record, no_path_record, error_record] \<and>
   CodeSmell_init no_path_record = Inl (KeyError (PyStr ''path'')) \<and>
   Report_init [example_record, no_path_record, error_record] (8::int)
     = Inl (KeyError (PyStr ''path''))"
  using Report_init_all_or_nothing
    [of no_path_record "[example_record, no_path_record, error_record]"
        "KeyError (PyStr ''path'')" "8::int"]
  by (simp add: no_path_record_init example_record_init Report_init_def convert_dict_def
      and_then_def)

section \<open>Grouping by file\<close>

lemma groupby_concat: "concat (map snd (groupby xs key)) = xs"
  by (induction xs key rule: groupby.induct) simp_all

lemma groupby_heads:
  "map (\<lambda>g. key (hd g)) (map snd (groupby xs key)) = map fst (groupby xs key)"
  by (induction xs key rule: groupby.induct) simp_all

lemma groupby_groups:
  "(k, g) \<in> set (groupby xs key) \<Longrightarrow> g \<noteq> [] \<and> (\<forall>a \<in> set g. key a = k)"
proof (induction xs key rule: groupby.induct)
  case (1 key)
  then show ?case by simp
next
  case (2 x xs key)
  define run where "run = takeWhile (\<lambda>y. key y = key x) xs"
  define rest where "rest = dropWhile (\<lambda>y. key y = key x) xs"
  have step: "groupby (x # xs) key = (key x, x # run) # groupby rest key"
    by (simp add: run_def rest_def)
  have run: "key a = key x" if "a \<in> set run" for a
    using that unfolding run_def by (blast dest: set_takeWhileD)
  from "2.prems" have "(k, g) = (key x, x # run) \<or> (k, g) \<in> set (groupby rest key)"
    unfolding step by simp
  then show ?case
  proof
    assume "(k, g) = (key x, x # run)"
    then have k: "k = key x" and g: "g = x # run" by blast+
    show ?thesis
    proof (intro conjI ballI)
      show "g \<noteq> []" unfolding g by blast
    next
      fix a assume "a \<in> set g"
      then have "a = x \<or> a \<in> set run" unfolding g by simp
      then show "key a = k" unfolding k using run by blast
    qed
  next
    assume "(k, g) \<in> set (groupby rest key)"
    then show ?thesis unfolding rest_def by (rule "2.IH")
  qed
qed

lemma groupby_maximal: "distinct_adj (map fst (groupby xs key))"
proof (induction xs key rule: groupby.induct)
  case (1 key)
  then show ?case by simp
next
  case (2 x xs key)
  define rest where "rest = dropWhile (\<lambda>y. key y = key x) xs"
  have eq: "map fst (groupby (x # xs) key) = key x # map fst (groupby rest key)"
    by (simp add: rest_def)
  have IH: "distinct_adj (map fst (groupby rest key))"
    unfolding rest_def by (rule 2)
  show ?case
  proof (cases rest)
    case Nil
    then show ?thesis unfolding eq by simp
  next
    case (Cons y ys)
    then have "rest \<noteq> []" by simp
    then have "\<not> key (hd rest) = key x"
      unfolding rest_def by (rule hd_dropWhile)
    then have "key x \<noteq> key y" using Cons by auto
    moreover have "map fst (groupby rest key)
        = key y # map fst (groupby (dropWhile (\<lambda>z. key z = key y) ys) key)"
      unfolding Cons by simp
    ultimately show ?thesis
      using IH unfolding eq by simp
  qed
qed

lemma group_by_file_groups:
  assumes "grp \<in> set (group_by_file r)"
  shows "grp \<noteq> []" and "a \<in> set grp \<Longrightarrow> path (location a) = path (location (hd grp))"
proof -
  from assms obtain k where kg: "(k, grp) \<in> set (groupby (code_smells r) key_func)"
    by (auto simp: group_by_file_def)
  from groupby_groups [OF kg] show ne: "grp \<noteq> []" by blast
  then have hd: "hd grp \<in> set grp" by simp
  assume "a \<in> set grp"
  with hd groupby_groups [OF kg] have "key_func a = k" "key_func (hd grp) = k" by blast+
  then show "path (location a) = path (location (hd grp))" by (simp add: key_func_def)
qed

lemma group_by_file_heads:
  "distinct_adj (map (\<lambda>grp. path (location (hd grp))) (group_by_file r))"
proof -
  have "map (\<lambda>grp. path (location (hd grp))) (group_by_file r)
      = map (\<lambda>g. key_func (hd g)) (map snd (groupby (code_smells r) key_func))"
    by (simp add: group_by_file_def key_func_def)
  then show ?thesis unfolding groupby_heads by (simp add: groupby_maximal)
qed

lemma example_paths:
  "path (location example_smell) = PyStr ''app.py''"
  "path (location branches_smell) = PyStr ''app.py''"
  "path (location warning_smell) = PyStr ''app.py''"
  "path (location error_smell) = PyStr ''lib.py''"
  "path (location other_file_smell) = PyStr ''lib.py''"
  by (simp_all add: example_smell_def branches_smell_def warning_smell_def error_smell_def
      other_file_smell_def)

lemma example_types:
  "type example_smell = Member REFACTOR" "type warning_smell = Member WARNING"
  "type other_file_smell = Member REFACTOR"
  by (simp_all add: example_smell_def warning_smell_def other_file_smell_def)

text \<open>
  C6. \<open>group_by_file()\<close> cuts \<open>code_smells\<close>, in its order, into maximal runs of smells
  with the same \<open>location.path\<close>. Smells with the paths A, A, B give the groups [A, A] and
  [B]; smells with the paths A, B, A give three groups [A], [B], [A]: the smells of one
  path are in one group only when they are neighbours. For every report the groups, one
  after the other, are \<open>code_smells\<close>; every group is a non-empty run of one path; and the
  runs are maximal: two neighbouring groups have different paths. Nothing but the path
  decides: the type of a smell plays no part.
\<close>

theorem group_by_file_runs:
  "(path (location a1) = path (location a2) \<and> path (location b) \<noteq> path (location a1) \<longrightarrow>
      group_by_file \<lparr>code_smells = [a1, a2, b], grade = g\<rparr> = [[a1, a2], [b]] \<and>
      group_by_file \<lparr>code_smells = [a1, b, a2], grade = g\<rparr> = [[a1], [b], [a2]]) \<and>
   concat (group_by_file r) = code_smells r \<and>
   (\<forall>grp \<in> set (group_by_file r).
      grp \<noteq> [] \<and> (\<forall>a \<in> set grp. path (location a) = path (location (hd grp)))) \<and>
   distinct_adj (map (\<lambda>grp. path (location (hd grp))) (group_by_file r))"
proof (intro conjI impI ballI)
  assume k: "path (location a1) = path (location a2) \<and> path (location b) \<noteq> path (location a1)"
  then have k1: "path (location a2) = path (location a1)"
    and k2: "path (location b) \<noteq> path (location a1)"
    and k4: "path (location a2) \<noteq> path (location b)" by auto
  show "group_by_file \<lparr>code_smells = [a1, a2, b], grade = g\<rparr> = [[a1, a2], [b]]"
    by (simp add: group_by_file_def key_func_def k1 k2)
  show "group_by_file \<lparr>code_smells = [a1, b, a2], grade = g\<rparr> = [[a1], [b], [a2]]"
    by (simp add: group_by_file_def key_func_def k2 k4)
next
  show "concat (group_by_file r) = code_smells r"
    by (simp add: group_by_file_def groupby_concat)
next
  fix grp assume "grp \<in> set (group_by_file r)"
  then show "grp \<noteq> []" by (rule group_by_file_groups(1))
next
  fix grp a assume "grp \<in> set (group_by_file r)" "a \<in> set grp"
  then show "path (location a) = path (location (hd grp))" by (rule group_by_file_groups(2))
next
  show "distinct_adj (map (\<lambda>grp. path (location (hd grp))) (group_by_file r))"
    by (rule group_by_file_heads)
qed

theorem group_by_file_runs_witness:
  "path (location example_smell) = path (location warning_smell) \<and>
   type example_smell \<noteq> type warning_smell \<and>
   path (location other_file_smell) \<noteq> path (location example_smell) \<and>
   type other_file_smell = type example_smell \<and>
   group_by_file \<lparr>code_smells = [example_smell, warning_smell, other_file_smell], grade = 8::int\<rparr>
     = [[example_smell, warning_smell], [other_file_smell]] \<and>
   group_by_file \<lparr>code_smells = [example_smell, other_file_smell, warning_smell], grade = 8::int\<rparr>
     = [[example_smell], [other_file_smell], [warning_smell]] \<and>
   [example_smell, warning_smell] \<in> set (group_by_file
     \<lparr>code_smells = [example_smell, warning_smell, other_file_smell], grade = 8::int\<rparr>) \<and>
   map (\<lambda>grp. path (location (hd grp))) (group_by_file
     \<lparr>code_smells = [example_smell, other_file_smell, warning_smell], grade = 8::int\<rparr>)
     = [PyStr ''app.py'', PyStr ''lib.py'', PyStr ''app.py'']"
  using group_by_file_runs
    [of example_smell warning_smell other_file_smell "8::int"
        "\<lparr>code_smells = [example_smell, other_file_smell, warning_smell], grade = 8::int\<rparr>"]
  by (simp add: example_paths example_types)

text \<open>
  C10. For every report, the groups of \<open>group_by_file()\<close>, one after the other, are
  \<open>code_smells\<close> itself; no group is empty; the smells of one group have the same path.
\<close>

theorem group_by_file_partition:
  "concat (group_by_file r) = code_smells r \<and>
   (\<forall>grp \<in> set (group_by_file r).
      grp \<noteq> [] \<and> (\<forall>a \<in> set grp. \<forall>b \<in> set grp. path (location a) = path (location b)))"
proof (intro conjI ballI)
  show "concat (group_by_file r) = code_smells r"
    by (simp add: group_by_file_def groupby_concat)
next
  fix grp assume "grp \<in> set (group_by_file r)"
  then obtain k where kg: "(k, grp) \<in> set (groupby (code_smells r) key_func)"
    by (auto simp: group_by_file_def)
  from groupby_groups [OF kg] show "grp \<noteq> []" by blast
  fix a b assume "a \<in> set grp" "b \<in> set grp"
  with groupby_groups [OF kg] have "key_func a = k" "key_func b = k" by blast+
  then show "path (location a) = path (location b)" by (simp add: key_func_def)
qed

theorem group_by_file_partition_witness:
  "group_by_file \<lparr>code_smells = [error_smell, example_smell, branches_smell], grade = 8::int\<rparr>
     = [[error_smell], [example_smell, branches_smell]] \<and>
   concat (group_by_file
     \<lparr>code_smells = [error_smell, example_smell, branches_smell], grade = 8::int\<rparr>)
     = [error_smell, example_smell, branches_smell] \<and>
   path (location example_smell) = path (location branches_smell)"
  using group_by_file_partition
    [of "\<lparr>code_smells = [error_smell, example_smell, branches_smell], grade = 8::int\<rparr>"]
  by (simp add: group_by_file_def key_func_def example_paths)

end
